theory Spec2Isabelle
  imports Main "HOL-Library.Sublist" "HOL-Library.Char_ord" "HOL-Library.List_Lexorder"
    "HOL-Library.Product_Lexorder" "HOL-Library.Multiset" "HOL-Library.AList"
begin

section \<open>Frontend: fire-and-forget write and polling (page.tsx)\<close>

text \<open>
  The React component keeps the delta-table part of its state in five \<open>useState\<close>
  cells. The model adds two traces for the effects the handlers have on the outside:
  the API calls started, in order, and the delays (in milliseconds) passed to
  \<open>setTimeout\<close>, in order. A row of the delta table is opaque to the page
  (\<open>any[]\<close>) and is a string here.
\<close>

type_synonym row = string

datatype endpoint = WriteToDeltaTable | QueryDeltaTable

record api_request =
  url :: endpoint
  file_paths :: "string list"
  limit :: nat

record page_state =
  deltaTableResults :: "row list"
  deltaTableLoading :: bool
  deltaTableError :: "string option"
  processedSessionFiles :: "string list"
  showDeltaTableResults :: bool
  apiCalls :: "api_request list"
  timeouts :: "nat list"

text \<open>
  \<open>apiCall\<close> either throws (the fetch fails or the response is not ok) or returns the
  parsed JSON body, of which the page reads \<open>success\<close> and \<open>data\<close>; \<open>data\<close> may be
  absent.
\<close>

datatype api_reply = Threw string | Reply bool "row list option"

definition maxAttempts :: nat where
  "maxAttempts = 30"

definition timeout_message :: string where
  "timeout_message = ''Processing is taking longer than expected. The operation may still be running in the background. Try refreshing in a few minutes.''"

definition processing_message :: string where
  "processing_message = ''Processing document... This may take 1-2 minutes for large files.''"

definition query_request :: "string list \<Rightarrow> api_request" where
  "query_request filePaths = \<lparr>url = QueryDeltaTable, file_paths = filePaths, limit = 10\<rparr>"

definition write_request :: "string list \<Rightarrow> api_request" where
  "write_request filePaths = \<lparr>url = WriteToDeltaTable, file_paths = filePaths, limit = 10\<rparr>"

text \<open>
  \<open>queryResult.success && queryResult.data && queryResult.data.length > 0\<close>: an array is
  truthy also when empty, so the test is on presence and on the length.
\<close>

fun has_results :: "api_reply \<Rightarrow> bool" where
  "has_results (Threw e) = False"
| "has_results (Reply success None) = False"
| "has_results (Reply success (Some rows)) = (success \<and> 0 < length rows)"

fun reply_data :: "api_reply \<Rightarrow> row list" where
  "reply_data (Reply success (Some rows)) = rows"
| "reply_data r = []"

text \<open>
  \<open>pollForResults\<close> re-arms itself through \<open>setTimeout\<close>; the chain of its invocations
  is one recursive function. The backend is the function that gives the reply to the
  query of each attempt: every query is taken to settle, by returning or by throwing.
  Both the branch "no results yet" and the \<open>catch\<close> branch schedule the next attempt
  after 10000 ms.
\<close>

function pollForResults ::
  "(nat \<Rightarrow> api_reply) \<Rightarrow> string list \<Rightarrow> nat \<Rightarrow> page_state \<Rightarrow> page_state" where
  "pollForResults backend filePaths attemptCount s =
     (if attemptCount \<ge> maxAttempts then
        s\<lparr>deltaTableError := Some timeout_message, deltaTableLoading := False\<rparr>
      else
        (case backend attemptCount of
           Reply success data \<Rightarrow>
             if has_results (Reply success data) then
               s\<lparr>apiCalls := apiCalls s @ [query_request filePaths],
                 deltaTableResults := reply_data (Reply success data),
                 deltaTableError := None,
                 deltaTableLoading := False\<rparr>
             else
               pollForResults backend filePaths (attemptCount + 1)
                 (s\<lparr>apiCalls := apiCalls s @ [query_request filePaths],
                    timeouts := timeouts s @ [10000]\<rparr>)
         | Threw e \<Rightarrow>
             pollForResults backend filePaths (attemptCount + 1)
               (s\<lparr>apiCalls := apiCalls s @ [query_request filePaths],
                  timeouts := timeouts s @ [10000]\<rparr>)))"
  by pat_completeness auto
termination
  by (relation "measure (\<lambda>(backend, filePaths, attemptCount, s). maxAttempts - attemptCount)")
     (auto simp: maxAttempts_def)

declare pollForResults.simps [simp del]

text \<open>
  The synchronous body of \<open>writeToDeltaTable\<close>. The write request is started and not
  awaited (its \<open>then\<close> and \<open>catch\<close> only log); the state cells are set; the first
  \<open>pollForResults()\<close> is scheduled after 1000 ms. Nothing in the body can throw
  synchronously, so its \<open>catch\<close> branch is not reached.
\<close>

definition writeToDeltaTable :: "string list \<Rightarrow> page_state \<Rightarrow> page_state" where
  "writeToDeltaTable filePaths s =
     s\<lparr>deltaTableLoading := True,
       apiCalls := apiCalls s @ [write_request filePaths],
       processedSessionFiles := filePaths,
       showDeltaTableResults := True,
       deltaTableResults := [],
       deltaTableError := Some processing_message,
       timeouts := timeouts s @ [1000]\<rparr>"

text \<open>
  The files selected in the page, as far as the write button reads them, and the
  button itself: \<open>onClick={handleWriteToDeltaTable}\<close> with
  \<open>disabled={deltaTableLoading || selectedFiles.filter(f => f.isUploaded).length === 0}\<close>.
  A disabled button does not run its handler.
\<close>

record selected_file =
  isUploaded :: bool
  ucPath :: "string option"

definition uploaded_paths :: "selected_file list \<Rightarrow> string list" where
  "uploaded_paths selectedFiles =
     List.map_filter (\<lambda>f. if isUploaded f then
                             (case ucPath f of Some p \<Rightarrow> if p = [] then None else Some p
                              | None \<Rightarrow> None)
                           else None) selectedFiles"

definition handleWriteToDeltaTable :: "selected_file list \<Rightarrow> page_state \<Rightarrow> page_state" where
  "handleWriteToDeltaTable selectedFiles s =
     (let filePaths = uploaded_paths selectedFiles in
      if length filePaths = 0 then
        s\<lparr>deltaTableError := Some ''No uploaded files found. Please upload files first.''\<rparr>
      else writeToDeltaTable filePaths s)"

definition write_button_disabled :: "selected_file list \<Rightarrow> page_state \<Rightarrow> bool" where
  "write_button_disabled selectedFiles s =
     (deltaTableLoading s \<or> length (filter isUploaded selectedFiles) = 0)"

definition click_write_button :: "selected_file list \<Rightarrow> page_state \<Rightarrow> page_state" where
  "click_write_button selectedFiles s =
     (if write_button_disabled selectedFiles s then s
      else handleWriteToDeltaTable selectedFiles s)"

text \<open>The page when it is first rendered.\<close>

definition initial_state :: page_state where
  "initial_state =
     \<lparr>deltaTableResults = [], deltaTableLoading = False, deltaTableError = None,
      processedSessionFiles = [], showDeltaTableResults = False,
      apiCalls = [], timeouts = []\<rparr>"

text \<open>
  What the polling loop ends in, written without recursion: the first attempt from
  \<open>attemptCount\<close> on, below \<open>maxAttempts\<close>, whose reply has results, if there is one.
\<close>

definition first_ready :: "(nat \<Rightarrow> api_reply) \<Rightarrow> nat \<Rightarrow> nat option" where
  "first_ready backend attemptCount =
     find (\<lambda>i. has_results (backend i)) [attemptCount..<maxAttempts]"

definition poll_outcome ::
  "(nat \<Rightarrow> api_reply) \<Rightarrow> string list \<Rightarrow> nat \<Rightarrow> page_state \<Rightarrow> page_state" where
  "poll_outcome backend filePaths attemptCount s =
     (case first_ready backend attemptCount of
        Some i \<Rightarrow>
          s\<lparr>apiCalls := apiCalls s @ replicate (i + 1 - attemptCount) (query_request filePaths),
            timeouts := timeouts s @ replicate (i - attemptCount) 10000,
            deltaTableResults := reply_data (backend i),
            deltaTableError := None,
            deltaTableLoading := False\<rparr>
      | None \<Rightarrow>
          s\<lparr>apiCalls := apiCalls s @ replicate (maxAttempts - attemptCount) (query_request filePaths),
            timeouts := timeouts s @ replicate (maxAttempts - attemptCount) 10000,
            deltaTableError := Some timeout_message,
            deltaTableLoading := False\<rparr>)"

text \<open>Two backends to run the loop on: one that never has results, and one whose
  third reply (attempt 2) is the first with rows, after an empty reply and a failed
  request.\<close>

definition never_ready :: "nat \<Rightarrow> api_reply" where
  "never_ready i = (if even i then Reply True (Some []) else Threw ''HTTP error! status: 504'')"

definition ready_on_third :: "nat \<Rightarrow> api_reply" where
  "ready_on_third i =
     (if i = 0 then Reply True (Some [])
      else if i = 1 then Threw ''HTTP error! status: 504''
      else Reply True (Some [''row 1'', ''row 2'']))"

definition always_ready :: "nat \<Rightarrow> api_reply" where
  "always_ready i = Reply True (Some [''late row''])"

section \<open>Backend: format handlers, format detection and redact_documents (backendchanges.md)\<close>

subsection \<open>Python strings\<close>

text \<open>
  A Python \<open>str\<close> is modelled as a list of 8-bit characters, that is, of code points
  below 256. \<open>str.lower\<close> maps the ASCII capitals and the Latin-1 capitals (all of
  U+00C0 to U+00DE but the multiplication sign) 32 code points up and leaves the rest.
\<close>

definition lower_char :: "char \<Rightarrow> char" where
  "lower_char c =
     (let n = (of_char c :: nat) in
      if (65 \<le> n \<and> n \<le> 90) \<or> (192 \<le> n \<and> n \<le> 222 \<and> n \<noteq> 215)
      then char_of (n + 32) else c)"

definition lower :: "string \<Rightarrow> string" where
  "lower s = map lower_char s"

definition endswith :: "string \<Rightarrow> string \<Rightarrow> bool" where
  "endswith s suf = suffix suf s"

definition endswith_any :: "string \<Rightarrow> string list \<Rightarrow> bool" where
  "endswith_any s sufs = list_ex (endswith s) sufs"

definition startswith :: "string \<Rightarrow> string \<Rightarrow> bool" where
  "startswith s pre = prefix pre s"

text \<open>The characters \<open>str.strip()\<close> removes: those for which \<open>str.isspace\<close> holds.\<close>

definition isspace :: "char \<Rightarrow> bool" where
  "isspace c =
     (let n = (of_char c :: nat) in
      (9 \<le> n \<and> n \<le> 13) \<or> (28 \<le> n \<and> n \<le> 32) \<or> n = 133 \<or> n = 160)"

definition strip :: "string \<Rightarrow> string" where
  "strip s = rev (dropWhile isspace (rev (dropWhile isspace s)))"

text \<open>\<open>str(n)\<close> for a count.\<close>

function str_nat :: "nat \<Rightarrow> string" where
  "str_nat n =
     (if n < 10 then [char_of (48 + n)]
      else str_nat (n div 10) @ [char_of (48 + n mod 10)])"
  by pat_completeness auto
termination
  by (relation "measure id") auto

declare str_nat.simps [simp del]

subsection \<open>Format handlers\<close>

datatype handler = MarkdownHandler | ExcelHandler | PowerPointHandler

definition xlsx_mime :: string where
  "xlsx_mime = ''application/vnd.openxmlformats-officedocument.spreadsheetml.sheet''"

definition pptx_mime :: string where
  "pptx_mime = ''application/vnd.openxmlformats-officedocument.presentationml.presentation''"

fun can_handle :: "handler \<Rightarrow> string \<Rightarrow> string \<Rightarrow> bool" where
  "can_handle MarkdownHandler file_path mime_type =
     (endswith (lower file_path) ''.md'' \<or> mime_type = ''text/markdown'')"
| "can_handle ExcelHandler file_path mime_type =
     (endswith_any (lower file_path) [''.xlsx'', ''.xls''] \<or> mime_type \<in> set [xlsx_mime])"
| "can_handle PowerPointHandler file_path mime_type =
     (endswith_any (lower file_path) [''.pptx'', ''.ppt''] \<or> mime_type = pptx_mime)"

fun get_supported_extensions :: "handler \<Rightarrow> string list" where
  "get_supported_extensions MarkdownHandler = [''.md'', ''.markdown'']"
| "get_supported_extensions ExcelHandler = [''.xlsx'', ''.xls'']"
| "get_supported_extensions PowerPointHandler = [''.pptx'', ''.ppt'']"

text \<open>
  An extension match, by the handler's own list: the lower-cased path ends in one of
  the extensions that \<open>get_supported_extensions\<close> returns.
\<close>

definition extension_supported :: "handler \<Rightarrow> string \<Rightarrow> bool" where
  "extension_supported h file_path =
     endswith_any (lower file_path) (get_supported_extensions h)"

text \<open>The MIME type that the \<open>can_handle\<close> of a handler compares with.\<close>

fun handler_mime_type :: "handler \<Rightarrow> string" where
  "handler_mime_type MarkdownHandler = ''text/markdown''"
| "handler_mime_type ExcelHandler = xlsx_mime"
| "handler_mime_type PowerPointHandler = pptx_mime"

subsection \<open>Format detection and the handler table\<close>

text \<open>
  An exception carries its class and its message; \<open>str(e)\<close> is the message.
\<close>

datatype py_exception = Exception string | NameError string

fun str_of_exception :: "py_exception \<Rightarrow> string" where
  "str_of_exception (Exception msg) = msg"
| "str_of_exception (NameError msg) = msg"

text \<open>
  The module \<open>format_detection.py\<close> imports \<open>Optional\<close> and \<open>mimetypes\<close> and nothing
  else, so in \<open>os.path.splitext(file_path.lower())[1]\<close> the name \<open>os\<close> is unbound:
  looking it up raises NameError before the path is lower-cased or split.
\<close>

definition name_os_undefined :: string where
  "name_os_undefined = ''name '' @ [CHR 0x27] @ ''os'' @ [CHR 0x27] @ '' is not defined''"

definition os_path_splitext_ext :: "string \<Rightarrow> py_exception + string" where
  "os_path_splitext_ext p = Inl (NameError name_os_undefined)"

definition format_mapping :: "(string \<times> string) list" where
  "format_mapping =
     [(''.md'', ''markdown''), (''.markdown'', ''markdown''),
      (''.xlsx'', ''excel''), (''.xls'', ''excel''),
      (''.pptx'', ''powerpoint''), (''.ppt'', ''powerpoint''),
      (''.pdf'', ''pdf'')]"

text \<open>\<open>format_mapping.get(ext, 'unknown')\<close>.\<close>

definition format_of_extension :: "string \<Rightarrow> string" where
  "format_of_extension ext =
     (case map_of format_mapping ext of
        Some format_type \<Rightarrow> format_type
      | None \<Rightarrow> ''unknown'')"

definition detect_file_format :: "string \<Rightarrow> py_exception + string" where
  "detect_file_format file_path =
     (case os_path_splitext_ext (lower file_path) of
        Inl e \<Rightarrow> Inl e
      | Inr ext \<Rightarrow> Inr (format_of_extension ext))"

definition FORMAT_HANDLERS :: "(string \<times> handler) list" where
  "FORMAT_HANDLERS =
     [(''markdown'', MarkdownHandler), (''excel'', ExcelHandler),
      (''powerpoint'', PowerPointHandler)]"

definition get_format_handler :: "string \<Rightarrow> handler option" where
  "get_format_handler format_type = map_of FORMAT_HANDLERS format_type"

subsection \<open>redact_documents\<close>

text \<open>
  What \<open>redact_documents\<close> calls and this file does not define is a parameter of the
  model: the workspace client and the warehouse id, the delta table path, the SQL
  statement that reads the content of a path (its rows are given by the first column,
  which may be NULL; no result and an empty data array are both the empty list), the
  entity extraction, and the \<open>redact_content\<close> method of the handlers. Each call may
  raise. An EntityMap is a Python dict: its items in insertion order, keys unique.
\<close>

datatype http_error = HTTPException nat string

type_synonym entity_map = "(string \<times> string) list"

record backend_env =
  w_configured :: bool
  current_warehouse_id :: "string option"
  get_delta_table_path :: "py_exception + string"
  execute_statement :: "string \<Rightarrow> string \<Rightarrow> py_exception + string option list"
  extract_entities_for_redaction :: "string \<Rightarrow> py_exception + entity_map"
  redact_content :: "handler \<Rightarrow> string \<Rightarrow> entity_map \<Rightarrow> py_exception + string"

record redacted_entry =
  original_file :: string
  redacted_file :: string
  entities_count :: nat
  entities :: "entity_map option"
  status :: string
  format :: string

record redact_response =
  success :: bool
  message :: string
  redacted_files :: "redacted_entry list"

definition warehouse_id_set :: "backend_env \<Rightarrow> bool" where
  "warehouse_id_set env =
     (case current_warehouse_id env of None \<Rightarrow> False | Some wid \<Rightarrow> wid \<noteq> [])"

definition dbfs_path_of :: "string \<Rightarrow> string" where
  "dbfs_path_of original_file_path =
     (if startswith original_file_path ''/Volumes/'' then ''dbfs:'' @ original_file_path
      else original_file_path)"

text \<open>
  One turn of the \<open>for\<close> loop gives \<open>Inl\<close> when a call raises, \<open>Inr None\<close> when
  the turn ends in \<open>continue\<close> without appending, and \<open>Inr (Some entry)\<close> when it
  appends an entry to \<open>redacted_files\<close>. A turn is the format detection, its first
  statement, followed by the rest of the body, from the handler lookup on, which
  \<open>process_detected\<close> is for the format detected.
\<close>

definition process_detected ::
  "backend_env \<Rightarrow> string \<Rightarrow> string \<Rightarrow> string \<Rightarrow> py_exception + redacted_entry option" where
  "process_detected env destination_table original_file_path file_format =
     (case get_format_handler file_format of
        None \<Rightarrow> Inr None
      | Some handler \<Rightarrow>
          (case execute_statement env destination_table (dbfs_path_of original_file_path) of
             Inl e \<Rightarrow> Inl e
           | Inr [] \<Rightarrow> Inr None
           | Inr (None # rows) \<Rightarrow> Inr None
           | Inr (Some content # rows) \<Rightarrow>
               if content = [] \<or> strip content = [] then Inr None
               else
                 (case extract_entities_for_redaction env content of
                    Inl e \<Rightarrow> Inl e
                  | Inr entities_to_redact \<Rightarrow>
                      if entities_to_redact = [] then
                        Inr (Some \<lparr>original_file = original_file_path,
                                   redacted_file = original_file_path,
                                   entities_count = 0,
                                   entities = None,
                                   status = ''no_entities_found'',
                                   format = file_format\<rparr>)
                      else
                        (case redact_content env handler original_file_path entities_to_redact of
                           Inl e \<Rightarrow> Inl e
                         | Inr redacted_path \<Rightarrow>
                             Inr (Some \<lparr>original_file = original_file_path,
                                        redacted_file = redacted_path,
                                        entities_count = length entities_to_redact,
                                        entities = Some entities_to_redact,
                                        status = ''redacted'',
                                        format = file_format\<rparr>)))))"

definition process_file ::
  "backend_env \<Rightarrow> string \<Rightarrow> string \<Rightarrow> py_exception + redacted_entry option" where
  "process_file env destination_table original_file_path =
     (case detect_file_format original_file_path of
        Inl e \<Rightarrow> Inl e
      | Inr file_format \<Rightarrow>
          process_detected env destination_table original_file_path file_format)"

text \<open>
  The \<open>for\<close> loop inside the \<open>try\<close>: the turns run in order, each appends at most
  one entry, and the first exception leaves the loop and drops the entries appended so
  far.
\<close>

fun for_each_file ::
  "(string \<Rightarrow> py_exception + redacted_entry option) \<Rightarrow> string list \<Rightarrow> redacted_entry list
   \<Rightarrow> py_exception + redacted_entry list" where
  "for_each_file turn [] redacted_so_far = Inr redacted_so_far"
| "for_each_file turn (original_file_path # rest) redacted_so_far =
     (case turn original_file_path of
        Inl e \<Rightarrow> Inl e
      | Inr None \<Rightarrow> for_each_file turn rest redacted_so_far
      | Inr (Some entry) \<Rightarrow> for_each_file turn rest (redacted_so_far @ [entry]))"

definition process_files ::
  "backend_env \<Rightarrow> string \<Rightarrow> string list \<Rightarrow> py_exception + redacted_entry list" where
  "process_files env destination_table request_file_paths =
     for_each_file (process_file env destination_table) request_file_paths []"

definition failed_to_redact :: "py_exception \<Rightarrow> http_error" where
  "failed_to_redact e =
     HTTPException 500 (''Failed to redact documents: '' @ str_of_exception e)"

definition redact_documents :: "backend_env \<Rightarrow> string list \<Rightarrow> http_error + redact_response" where
  "redact_documents env request_file_paths =
     (if \<not> w_configured env then
        Inl (HTTPException 500 ''Databricks connection is not configured.'')
      else if \<not> warehouse_id_set env then
        Inl (HTTPException 500 ''DATABRICKS_WAREHOUSE_ID is not set.'')
      else if request_file_paths = [] then
        Inl (HTTPException 400 ''file_paths is required'')
      else
        (case get_delta_table_path env of
           Inl e \<Rightarrow> Inl (failed_to_redact e)
         | Inr destination_table \<Rightarrow>
             (case process_files env destination_table request_file_paths of
                Inl e \<Rightarrow> Inl (failed_to_redact e)
              | Inr redacted_entries \<Rightarrow>
                  Inr \<lparr>success = True,
                       message = ''Successfully processed '' @ str_nat (length redacted_entries)
                                 @ '' file(s) for redaction'',
                       redacted_files = redacted_entries\<rparr>)))"

text \<open>
  Environments to run \<open>redact_documents\<close> in. In \<open>demo_env\<close> every path has the
  same stored content, the entity extraction finds one entity, and redacting the
  file \<open>b.md\<close> raises, as a handler does on a file it cannot read. The others differ
  in what the entity extraction returns: a key that is not in the content, or nothing.
\<close>

definition demo_env :: backend_env where
  "demo_env =
     \<lparr>w_configured = True,
      current_warehouse_id = Some ''862f1d757f0424f7'',
      get_delta_table_path = Inr ''fins_genai.unstructured_documents.document_processing'',
      execute_statement = (\<lambda>table path. Inr [Some ''Coca Cola Inc. signed the contract.'']),
      extract_entities_for_redaction = (\<lambda>content. Inr [(''Coca Cola'', ''[CLIENT]'')]),
      redact_content = (\<lambda>h path replacements.
         if path = ''/Volumes/v/b.md'' then Inl (Exception ''File is not a valid document'')
         else Inr (path @ ''.redacted''))\<rparr>"

definition nomatch_env :: backend_env where
  "nomatch_env =
     demo_env\<lparr>extract_entities_for_redaction := (\<lambda>content. Inr [(''Nonexistent'', ''[X]'')])\<rparr>"

definition noentity_env :: backend_env where
  "noentity_env = demo_env\<lparr>extract_entities_for_redaction := (\<lambda>content. Inr [])\<rparr>"

text \<open>
  The loop body from the handler lookup on, for \<open>demo_env\<close> and documents whose format
  is markdown, as a turn of its own.
\<close>

definition demo_markdown_turn :: "string \<Rightarrow> py_exception + redacted_entry option" where
  "demo_markdown_turn original_file_path =
     process_detected demo_env ''fins_genai.unstructured_documents.document_processing''
       original_file_path ''markdown''"

text \<open>
  The loop body from the handler lookup on, for \<open>demo_env\<close> and documents whose format
  is unknown, as a turn of its own.
\<close>

definition demo_unknown_turn :: "string \<Rightarrow> py_exception + redacted_entry option" where
  "demo_unknown_turn original_file_path =
     process_detected demo_env ''fins_genai.unstructured_documents.document_processing''
       original_file_path ''unknown''"

text \<open>The entry a turn appended, if it appended one, and whether a turn raised.\<close>

definition appended_entry ::
  "(string \<Rightarrow> py_exception + redacted_entry option) \<Rightarrow> string \<Rightarrow> redacted_entry option" where
  "appended_entry turn original_file_path =
     (case turn original_file_path of Inl e \<Rightarrow> None | Inr entry \<Rightarrow> entry)"

definition turn_raises ::
  "(string \<Rightarrow> py_exception + redacted_entry option) \<Rightarrow> string \<Rightarrow> bool" where
  "turn_raises turn original_file_path = isl (turn original_file_path)"

definition raises :: "backend_env \<Rightarrow> string \<Rightarrow> string \<Rightarrow> bool" where
  "raises env destination_table original_file_path =
     turn_raises (process_file env destination_table) original_file_path"

section \<open>Redaction Engine: substitution (specification sections 3, 4.2 and 4.3)\<close>

text \<open>
  Of the substitution itself the source has the caller only: \<open>redact_documents\<close> hands
  the EntityMap to \<open>handler.redact_content\<close>, whose body in each handler is the comment
  "Implementation details", and there is no \<open>extract\<close>, \<open>serialize\<close> or registry with
  \<open>resolve\<close>. The definitions of this section are therefore written from the
  specification.
\<close>

text \<open>Modelled from the spec: ContentUnit (section 3), a location, which is a tuple of
  indices in every format the specification lists, and the literal text there. The
  source has no content units.\<close>

record content_unit =
  location :: "nat list"
  "text" :: string

text \<open>Modelled from the spec: ContentModel (section 3), the ordered units and the
  format metadata. The source has no content model.\<close>

record content_model =
  units :: "content_unit list"
  sourceFormat :: string
  documentId :: string

text \<open>Modelled from the spec: the error taxonomy of section 7, as far as the engine
  meets it. The source has no error classes.\<close>

datatype engine_error = ValidationError | ParseError | SerializationError

text \<open>Modelled from the spec: a Format Handler (section 4.1) with its three
  operations. The handlers of the source declare \<open>can_handle\<close>, \<open>extract_content\<close>
  and \<open>redact_content\<close> and implement only the first.\<close>

record format_handler =
  canHandle :: "string \<Rightarrow> string \<Rightarrow> bool"
  "extract" :: "string \<Rightarrow> engine_error + content_model"
  serialize :: "content_model \<Rightarrow> engine_error + string"

text \<open>Modelled from the spec: the Handler Registry (section 4.2), format identifiers
  with their handlers, one handler per identifier, a later registration replacing an
  earlier one; \<open>resolve\<close> gives a handler that can handle the file, or none. The source
  has the table \<open>FORMAT_HANDLERS\<close> and no \<open>register\<close> or \<open>resolve\<close>.\<close>

type_synonym registry = "(string \<times> format_handler) list"


text \<open>Modelled from the spec: \<open>resolve(filename, declaredType)\<close> of section 4.2, the
  first registered handler that can handle the file, or none (NotFoundError). The
  source has no \<open>resolve\<close>.\<close>

definition resolve :: "registry \<Rightarrow> string \<Rightarrow> string \<Rightarrow> format_handler option" where
  "resolve reg filename declaredType =
     find (\<lambda>h. canHandle h filename declaredType) (map snd reg)"

text \<open>Modelled from the spec: the four values of \<open>status\<close> in a RedactionResult
  (section 3). The source has the strings "redacted" and "no_entities_found" only.\<close>

datatype redaction_status = redacted | no_entities_found | unsupported_format | failed

text \<open>Modelled from the spec: RedactionResult (section 3), without the output location,
  which the caller decides (the engine manages no storage). The source has the entries
  of \<open>redacted_files\<close> instead.\<close>

record redaction_result =
  entitiesApplied :: nat
  appliedEntities :: "string list"
  result_status :: redaction_status

text \<open>Modelled from the spec: step 3 of section 4.3, the order the engine imposes on
  the EntityMap: descending key length, ties in lexicographic order of the keys (by
  character code). The source passes the EntityMap on unsorted.\<close>

definition entity_order_key :: "string \<times> string \<Rightarrow> int \<times> string" where
  "entity_order_key entry = (- int (length (fst entry)), fst entry)"

text \<open>Modelled from the spec: step 3 of section 4.3, the EntityMap sorted by that order.
  The source does not sort.\<close>

definition sort_entities :: "entity_map \<Rightarrow> entity_map" where
  "sort_entities entityMap = sort_key entity_order_key entityMap"

text \<open>Modelled from the spec: step 4 of section 4.3, replacement output is inert. The
  text of a unit under substitution is a sequence of segments: text not replaced so
  far, and replacement tokens. The source has no substitution.\<close>

datatype segment = Raw string | Token string

text \<open>Modelled from the spec: step 4 of section 4.3, all matches of one key in a piece
  of text not replaced so far: the text is scanned from the left for the key (exact,
  case-sensitive, anywhere), every match gives the token, and the scan goes on behind
  the match. A key is non-empty by the data contract of section 6; an empty key matches
  nothing. The source has no substitution.\<close>

function scan :: "string \<Rightarrow> string \<Rightarrow> string \<Rightarrow> string \<Rightarrow> segment list" where
  "scan key token pending [] = [Raw (rev pending)]"
| "scan key token pending (c # cs) =
     (if key \<noteq> [] \<and> prefix key (c # cs)
      then Raw (rev pending) # Token token # scan key token [] (drop (length key) (c # cs))
      else scan key token (c # pending) cs)"
  by pat_completeness auto
termination
  by (relation "measure (\<lambda>(key, token, pending, rest). length rest)") auto

text \<open>Modelled from the spec: step 4 of section 4.3, one key on one segment; a token
  is never scanned. The source has no substitution.\<close>

fun replace_in_segment :: "string \<Rightarrow> string \<Rightarrow> segment \<Rightarrow> segment list" where
  "replace_in_segment key token (Raw s) = scan key token [] s"
| "replace_in_segment key token (Token t) = [Token t]"

text \<open>Modelled from the spec: step 4 of section 4.3, all matches of one key in the
  segments of a unit. The source has no substitution.\<close>

definition replace_key :: "string \<Rightarrow> string \<Rightarrow> segment list \<Rightarrow> segment list" where
  "replace_key key token segs = concat (map (replace_in_segment key token) segs)"

text \<open>Modelled from the spec: step 5 of section 4.3, whether a key matches in a
  segment that is still open to substitution. The source does not track matches.\<close>

fun found_in_segment :: "string \<Rightarrow> segment \<Rightarrow> bool" where
  "found_in_segment key (Raw s) = (key \<noteq> [] \<and> sublist key s)"
| "found_in_segment key (Token t) = False"

text \<open>Modelled from the spec: step 5 of section 4.3, whether a key matches in the text
  of a unit that is still open to substitution. The source does not track matches.\<close>

definition key_found :: "string \<Rightarrow> segment list \<Rightarrow> bool" where
  "key_found key segs = list_ex (found_in_segment key) segs"

text \<open>Modelled from the spec: steps 4 and 5 of section 4.3 for one unit, the keys in
  the given order, each applied to what the keys before it left; the result is the
  segments and the keys that matched. The source has no substitution.\<close>

fun substitute_all :: "entity_map \<Rightarrow> segment list \<Rightarrow> segment list \<times> string list" where
  "substitute_all [] segs = (segs, [])"
| "substitute_all ((key, token) # rest) segs =
     (let found = key_found key segs;
          (segs', applied) = substitute_all rest (replace_key key token segs)
      in (segs', if found then key # applied else applied))"

text \<open>Modelled from the spec: the literal text of a segment. The source has no
  segments.\<close>

fun segment_text :: "segment \<Rightarrow> string" where
  "segment_text (Raw s) = s"
| "segment_text (Token t) = t"

text \<open>Modelled from the spec: the text of a unit after substitution, its segments put
  together in order. The source has no segments.\<close>

definition flatten :: "segment list \<Rightarrow> string" where
  "flatten segs = concat (map segment_text segs)"

text \<open>Modelled from the spec: steps 3 and 4 of section 4.3 on the text of one unit.
  The source has no substitution.\<close>

definition redact_text :: "entity_map \<Rightarrow> string \<Rightarrow> string" where
  "redact_text entityMap t = flatten (fst (substitute_all (sort_entities entityMap) [Raw t]))"

text \<open>Modelled from the spec: step 5 of section 4.3 on the text of one unit, the keys
  that matched there. The source does not track matches.\<close>

definition matched_keys :: "entity_map \<Rightarrow> string \<Rightarrow> string list" where
  "matched_keys entityMap t = snd (substitute_all (sort_entities entityMap) [Raw t])"

text \<open>Modelled from the spec: step 4 of section 4.3 on a unit, which keeps its location
  and gets its text redacted. The source has no content units.\<close>

definition redact_unit :: "entity_map \<Rightarrow> content_unit \<Rightarrow> content_unit" where
  "redact_unit entityMap u = u\<lparr>text := redact_text entityMap (text u)\<rparr>"

text \<open>Modelled from the spec: step 5 of section 4.3 over all units: the applied entities
  are the keys, in the order of step 3, that matched in at least one unit. The source
  does not track matches.\<close>

definition applied_keys :: "entity_map \<Rightarrow> content_unit list \<Rightarrow> string list" where
  "applied_keys entityMap us =
     filter (\<lambda>key. list_ex (\<lambda>u. key \<in> set (matched_keys entityMap (text u))) us)
       (map fst (sort_entities entityMap))"

text \<open>Modelled from the spec: \<open>redact\<close> of section 4.3, steps 1 to 7, with the
  declared type that \<open>resolve\<close> takes. An empty EntityMap is a ValidationError
  (section 7). A ParseError or a SerializationError gives the status failed; with that
  status and with unsupported_format, for which the specification names no output, the
  input is handed back. The source has \<open>redact_documents\<close>, modelled above, and no
  function from bytes to bytes.\<close>

definition redact ::
  "registry \<Rightarrow> string \<Rightarrow> string \<Rightarrow> string \<Rightarrow> entity_map
   \<Rightarrow> engine_error + string \<times> redaction_result" where
  "redact reg rawBytes filename declaredType entityMap =
     (if entityMap = [] then Inl ValidationError
      else
        (case resolve reg filename declaredType of
           None \<Rightarrow>
             Inr (rawBytes, \<lparr>entitiesApplied = 0, appliedEntities = [],
                             result_status = unsupported_format\<rparr>)
         | Some h \<Rightarrow>
             (case extract h rawBytes of
                Inl e \<Rightarrow>
                  Inr (rawBytes, \<lparr>entitiesApplied = 0, appliedEntities = [],
                                  result_status = failed\<rparr>)
              | Inr model \<Rightarrow>
                  (let applied = applied_keys entityMap (units model);
                       mutated = model\<lparr>units := map (redact_unit entityMap) (units model)\<rparr>
                   in if applied = [] then
                        Inr (rawBytes, \<lparr>entitiesApplied = 0, appliedEntities = [],
                                        result_status = no_entities_found\<rparr>)
                      else
                        (case serialize h mutated of
                           Inl e \<Rightarrow>
                             Inr (rawBytes, \<lparr>entitiesApplied = 0, appliedEntities = [],
                                             result_status = failed\<rparr>)
                         | Inr redactedBytes \<Rightarrow>
                             Inr (redactedBytes,
                                  \<lparr>entitiesApplied = length applied,
                                   appliedEntities = applied,
                                   result_status = redacted\<rparr>))))))"



section \<open>Properties of the polling loop\<close>

lemma first_ready_ge: "maxAttempts \<le> n \<Longrightarrow> first_ready backend n = None"
  by (simp add: first_ready_def)

lemma first_ready_step:
  "n < maxAttempts \<Longrightarrow>
   first_ready backend n = (if has_results (backend n) then Some n else first_ready backend (Suc n))"
  by (simp add: first_ready_def upt_conv_Cons)

lemma first_ready_bounds:
  "first_ready backend n = Some i \<Longrightarrow> n \<le> i \<and> i < maxAttempts \<and> has_results (backend i)"
  unfolding first_ready_def by (auto simp: find_Some_iff)

lemma pollForResults_outcome:
  "pollForResults backend filePaths n s = poll_outcome backend filePaths n s"
proof (induction backend filePaths n s rule: pollForResults.induct)
  case (1 backend filePaths n s)
  show ?case
  proof (cases "maxAttempts \<le> n")
    case True
    then show ?thesis
      by (subst pollForResults.simps) (simp add: poll_outcome_def first_ready_ge)
  next
    case False
    then have lt: "n < maxAttempts" by simp
    show ?thesis
    proof (cases "has_results (backend n)")
      case True
      then obtain success data where r: "backend n = Reply success data"
        by (cases "backend n") auto
      with True lt show ?thesis
        by (subst pollForResults.simps) (simp add: poll_outcome_def first_ready_step)
    next
      case nores: False
      let ?s' = "s\<lparr>apiCalls := apiCalls s @ [query_request filePaths],
                    timeouts := timeouts s @ [10000]\<rparr>"
      have step: "pollForResults backend filePaths n s
                  = pollForResults backend filePaths (n + 1) ?s'"
        using lt nores
        by (subst pollForResults.simps) (cases "backend n"; simp)
      have ih: "pollForResults backend filePaths (n + 1) ?s'
                = poll_outcome backend filePaths (n + 1) ?s'"
      proof (cases "backend n")
        case (Threw e)
        with False "1.IH" show ?thesis by auto
      next
        case (Reply success data)
        with False nores "1.IH" show ?thesis by auto
      qed
      have "poll_outcome backend filePaths (n + 1) ?s' = poll_outcome backend filePaths n s"
      proof (cases "first_ready backend (Suc n)")
        case None
        have e: "maxAttempts - n = Suc (maxAttempts - Suc n)"
          using lt by arith
        from None lt nores show ?thesis
          by (simp add: poll_outcome_def first_ready_step e)
      next
        case (Some i)
        with first_ready_bounds have "Suc n \<le> i" by blast
        then have e1: "Suc i - n = Suc (i - n)" and e2: "i - n = Suc (i - Suc n)"
          by arith+
        from Some lt nores show ?thesis
          by (simp add: poll_outcome_def first_ready_step e1 e2)
      qed
      with step ih show ?thesis by simp
    qed
  qed
qed


lemma first_ready_None:
  "(\<forall>i < maxAttempts. \<not> has_results (backend i)) \<Longrightarrow> first_ready backend n = None"
  by (simp add: first_ready_def find_None_iff)

lemma sum_list_replicate_nat: "sum_list (replicate k (c::nat)) = k * c"
  by (induction k) simp_all

subsection \<open>Termination of the polling loop\<close>

text \<open>
  Claim C10. Every run of \<open>pollForResults\<close> in which each query settles ends (the
  function is total: its termination is proved with the measure
  \<open>maxAttempts - attemptCount\<close>), it makes at
  most \<open>maxAttempts = 30\<close> queries, less the attempts already counted, every retry is
  scheduled after 10000 ms, and it ends in one of two ways: at the first attempt whose
  reply is a success with a non-empty data array, showing those rows after exactly the
  queries up to that attempt, or, when no attempt below 30 has results, with the
  message that processing is taking longer than expected, after exactly the remaining
  queries. In both, the loading flag is cleared.
\<close>

theorem pollForResults_stops_within_maxAttempts:
  "maxAttempts = 30
   \<and> length (apiCalls (pollForResults backend filePaths attemptCount s))
       \<le> length (apiCalls s) + (maxAttempts - attemptCount)
   \<and> \<not> deltaTableLoading (pollForResults backend filePaths attemptCount s)
   \<and> (\<forall>i. first_ready backend attemptCount = Some i \<longrightarrow>
          attemptCount \<le> i \<and> i < maxAttempts \<and> has_results (backend i)
          \<and> apiCalls (pollForResults backend filePaths attemptCount s)
              = apiCalls s @ replicate (i + 1 - attemptCount) (query_request filePaths)
          \<and> timeouts (pollForResults backend filePaths attemptCount s)
              = timeouts s @ replicate (i - attemptCount) 10000
          \<and> deltaTableResults (pollForResults backend filePaths attemptCount s)
              = reply_data (backend i)
          \<and> deltaTableError (pollForResults backend filePaths attemptCount s) = None)
   \<and> (first_ready backend attemptCount = None \<longrightarrow>
          apiCalls (pollForResults backend filePaths attemptCount s)
              = apiCalls s @ replicate (maxAttempts - attemptCount) (query_request filePaths)
          \<and> timeouts (pollForResults backend filePaths attemptCount s)
              = timeouts s @ replicate (maxAttempts - attemptCount) 10000
          \<and> deltaTableResults (pollForResults backend filePaths attemptCount s)
              = deltaTableResults s
          \<and> deltaTableError (pollForResults backend filePaths attemptCount s)
              = Some timeout_message)"
proof -
  let ?r = "pollForResults backend filePaths attemptCount s"
  have eq: "?r = poll_outcome backend filePaths attemptCount s"
    by (rule pollForResults_outcome)
  have bound: "length (apiCalls ?r) \<le> length (apiCalls s) + (maxAttempts - attemptCount)"
  proof (cases "first_ready backend attemptCount")
    case None
    then show ?thesis by (simp add: eq poll_outcome_def)
  next
    case (Some i)
    with first_ready_bounds have "attemptCount \<le> i" "i < maxAttempts" by blast+
    with Some show ?thesis by (simp add: eq poll_outcome_def)
  qed
  have loading: "\<not> deltaTableLoading ?r"
    by (simp add: eq poll_outcome_def split: option.split)
  have found: "\<forall>i. first_ready backend attemptCount = Some i \<longrightarrow>
          attemptCount \<le> i \<and> i < maxAttempts \<and> has_results (backend i)
          \<and> apiCalls ?r = apiCalls s @ replicate (i + 1 - attemptCount) (query_request filePaths)
          \<and> timeouts ?r = timeouts s @ replicate (i - attemptCount) 10000
          \<and> deltaTableResults ?r = reply_data (backend i)
          \<and> deltaTableError ?r = None"
    using first_ready_bounds [of backend attemptCount]
    by (simp add: eq poll_outcome_def)
  have expired: "first_ready backend attemptCount = None \<longrightarrow>
          apiCalls ?r = apiCalls s @ replicate (maxAttempts - attemptCount) (query_request filePaths)
          \<and> timeouts ?r = timeouts s @ replicate (maxAttempts - attemptCount) 10000
          \<and> deltaTableResults ?r = deltaTableResults s
          \<and> deltaTableError ?r = Some timeout_message"
    by (simp add: eq poll_outcome_def)
  from bound loading found expired show ?thesis
    by (simp only: maxAttempts_def simp_thms)
qed

lemma first_ready_never_ready: "first_ready never_ready n = None"
  by (rule first_ready_None) (simp add: never_ready_def)

lemma first_ready_ready_on_third: "first_ready ready_on_third 0 = Some 2"
  by (simp add: first_ready_def maxAttempts_def ready_on_third_def upt_conv_Cons)

lemma first_ready_always_ready: "first_ready always_ready 0 = Some 0"
  by (simp add: first_ready_def maxAttempts_def always_ready_def upt_conv_Cons)

theorem pollForResults_stops_within_maxAttempts_witness:
  "first_ready ready_on_third 0 = Some 2
   \<and> apiCalls (pollForResults ready_on_third [''/Volumes/v/a.pdf''] 0 initial_state)
       = replicate 3 (query_request [''/Volumes/v/a.pdf''])
   \<and> timeouts (pollForResults ready_on_third [''/Volumes/v/a.pdf''] 0 initial_state)
       = [10000, 10000]
   \<and> deltaTableResults (pollForResults ready_on_third [''/Volumes/v/a.pdf''] 0 initial_state)
       = [''row 1'', ''row 2'']
   \<and> first_ready never_ready 0 = None
   \<and> length (apiCalls (pollForResults never_ready [''/Volumes/v/a.pdf''] 0 initial_state)) = 30
   \<and> deltaTableError (pollForResults never_ready [''/Volumes/v/a.pdf''] 0 initial_state)
       = Some timeout_message"
proof -
  let ?fp = "[''/Volumes/v/a.pdf'']"
  note a = pollForResults_stops_within_maxAttempts [of ready_on_third ?fp 0 initial_state]
  note b = pollForResults_stops_within_maxAttempts [of never_ready ?fp 0 initial_state]
  have a': "apiCalls (pollForResults ready_on_third ?fp 0 initial_state)
              = replicate 3 (query_request ?fp)
            \<and> timeouts (pollForResults ready_on_third ?fp 0 initial_state) = [10000, 10000]
            \<and> deltaTableResults (pollForResults ready_on_third ?fp 0 initial_state)
              = [''row 1'', ''row 2'']"
    using a first_ready_ready_on_third
    by (simp add: initial_state_def ready_on_third_def numeral_2_eq_2 numeral_3_eq_3)
  have b': "length (apiCalls (pollForResults never_ready ?fp 0 initial_state)) = 30
            \<and> deltaTableError (pollForResults never_ready ?fp 0 initial_state)
              = Some timeout_message"
    using b first_ready_never_ready [of 0]
    by (simp add: initial_state_def)
  from a' b' first_ready_ready_on_third first_ready_never_ready [of 0] show ?thesis
    by simp
qed

subsection \<open>Expiry of the polling loop and late results\<close>

text \<open>
  Claim C7. Time is counted as the page counts it: in attempts and in the delays handed
  to \<open>setTimeout\<close>. A job whose queries have no results in any of the 30 attempts is
  shown as expired: the message says that processing is taking longer than expected and
  that the operation may still be running, the loading flag is cleared, 30 queries were
  made and the retries waited 30 times 10000 ms. Expiry is kept in no state cell that
  a later poll reads (\<open>attemptCount\<close> is a parameter that starts again at 0), so a poll
  started after expiry whose query finds rows at some attempt shows those rows and
  clears the message, both when it starts from the expired state as it is and when it
  starts after the files were submitted again.
\<close>

theorem late_result_surfaces_after_expiry:
  assumes "\<forall>i < maxAttempts. \<not> has_results (backend i)"
    and "first_ready late 0 = Some k"
  shows "deltaTableError (pollForResults backend filePaths 0 s) = Some timeout_message
    \<and> \<not> deltaTableLoading (pollForResults backend filePaths 0 s)
    \<and> deltaTableResults (pollForResults backend filePaths 0 s) = deltaTableResults s
    \<and> length (apiCalls (pollForResults backend filePaths 0 s)) = length (apiCalls s) + 30
    \<and> sum_list (timeouts (pollForResults backend filePaths 0 s))
        = sum_list (timeouts s) + 300000
    \<and> deltaTableResults (pollForResults late filePaths 0 (pollForResults backend filePaths 0 s))
        = reply_data (late k)
    \<and> reply_data (late k) \<noteq> []
    \<and> deltaTableError (pollForResults late filePaths 0 (pollForResults backend filePaths 0 s))
        = None
    \<and> deltaTableResults (pollForResults late filePaths 0
          (writeToDeltaTable filePaths (pollForResults backend filePaths 0 s)))
        = reply_data (late k)
    \<and> deltaTableError (pollForResults late filePaths 0
          (writeToDeltaTable filePaths (pollForResults backend filePaths 0 s)))
        = None"
proof -
  let ?expired = "pollForResults backend filePaths 0 s"
  have none: "first_ready backend 0 = None"
    using assms(1) by (rule first_ready_None)
  have expired: "?expired =
      s\<lparr>apiCalls := apiCalls s @ replicate maxAttempts (query_request filePaths),
        timeouts := timeouts s @ replicate maxAttempts 10000,
        deltaTableError := Some timeout_message,
        deltaTableLoading := False\<rparr>"
    by (simp add: pollForResults_outcome poll_outcome_def none)
  have first: "deltaTableError ?expired = Some timeout_message
    \<and> \<not> deltaTableLoading ?expired
    \<and> deltaTableResults ?expired = deltaTableResults s
    \<and> length (apiCalls ?expired) = length (apiCalls s) + 30
    \<and> sum_list (timeouts ?expired) = sum_list (timeouts s) + 300000"
    by (simp add: expired sum_list_replicate_nat maxAttempts_def)
  have "has_results (late k)"
    using assms(2) first_ready_bounds by blast
  then have nonempty: "reply_data (late k) \<noteq> []"
    by (cases "late k" rule: has_results.cases) auto
  have later: "deltaTableResults (pollForResults late filePaths 0 t) = reply_data (late k)
    \<and> deltaTableError (pollForResults late filePaths 0 t) = None" for t
    by (simp add: pollForResults_outcome poll_outcome_def assms(2))
  from first nonempty later [of ?expired] later [of "writeToDeltaTable filePaths ?expired"]
  show ?thesis by simp
qed

theorem late_result_surfaces_after_expiry_witness:
  "list_all (\<lambda>i. \<not> has_results (never_ready i)) [0..<maxAttempts]
   \<and> first_ready always_ready 0 = Some 0
   \<and> deltaTableError (pollForResults never_ready [''/Volumes/v/a.pdf''] 0 initial_state)
       = Some timeout_message
   \<and> deltaTableResults (pollForResults always_ready [''/Volumes/v/a.pdf''] 0
         (pollForResults never_ready [''/Volumes/v/a.pdf''] 0 initial_state))
       = [''late row'']
   \<and> deltaTableError (pollForResults always_ready [''/Volumes/v/a.pdf''] 0
         (pollForResults never_ready [''/Volumes/v/a.pdf''] 0 initial_state))
       = None"
proof -
  have h1: "\<forall>i < maxAttempts. \<not> has_results (never_ready i)"
    by (simp add: never_ready_def)
  note h2 = first_ready_always_ready
  from h1 have h1': "list_all (\<lambda>i. \<not> has_results (never_ready i)) [0..<maxAttempts]"
    by (simp add: list_all_iff)
  from late_result_surfaces_after_expiry
         [OF h1 h2, of "[''/Volumes/v/a.pdf'']" initial_state] h1' h2
  show ?thesis by (simp add: always_ready_def)
qed

subsection \<open>Submitting the same files again\<close>

text \<open>
  Claim C6, as the code has it. \<open>writeToDeltaTable\<close> keeps no job map and returns no
  handle: every call starts one backing write request and schedules one polling loop,
  also while an earlier submission is pending (the loading flag is set). Only the
  cells the page shows (results, loading flag, message, session files, visibility) are
  the same after two calls as after one. What keeps a user from submitting twice is the
  button: it is disabled while the loading flag is set, and a click then changes
  nothing.
\<close>

theorem writeToDeltaTable_starts_a_write_every_time:
  "apiCalls (writeToDeltaTable filePaths s) = apiCalls s @ [write_request filePaths]
   \<and> timeouts (writeToDeltaTable filePaths s) = timeouts s @ [1000]
   \<and> deltaTableLoading (writeToDeltaTable filePaths s)
   \<and> (writeToDeltaTable filePaths (writeToDeltaTable filePaths s))
         \<lparr>apiCalls := calls, timeouts := delays\<rparr>
       = (writeToDeltaTable filePaths s)\<lparr>apiCalls := calls, timeouts := delays\<rparr>
   \<and> (deltaTableLoading s \<longrightarrow> click_write_button selectedFiles s = s)"
  by (simp add: writeToDeltaTable_def click_write_button_def write_button_disabled_def)

theorem writeToDeltaTable_starts_a_write_every_time_witness:
  "deltaTableLoading (writeToDeltaTable [''/Volumes/v/doc1.pdf''] initial_state)
   \<and> click_write_button [\<lparr>isUploaded = True, ucPath = Some ''/Volumes/v/doc1.pdf''\<rparr>]
        (writeToDeltaTable [''/Volumes/v/doc1.pdf''] initial_state)
      = writeToDeltaTable [''/Volumes/v/doc1.pdf''] initial_state
   \<and> apiCalls (writeToDeltaTable [''/Volumes/v/doc1.pdf''] initial_state)
      = [write_request [''/Volumes/v/doc1.pdf'']]"
  using writeToDeltaTable_starts_a_write_every_time
          [of "[''/Volumes/v/doc1.pdf'']" "writeToDeltaTable [''/Volumes/v/doc1.pdf''] initial_state"
              _ _ "[\<lparr>isUploaded = True, ucPath = Some ''/Volumes/v/doc1.pdf''\<rparr>]"]
        writeToDeltaTable_starts_a_write_every_time
          [of "[''/Volumes/v/doc1.pdf'']" initial_state]
  by (simp add: initial_state_def)

text \<open>
  The claim as the specification states it fails: submitting the same document while
  its job is pending starts a second backing write.
\<close>

theorem writeToDeltaTable_twice_starts_two_writes:
  "deltaTableLoading (writeToDeltaTable [''/Volumes/v/doc1.pdf''] initial_state)
   \<and> apiCalls (writeToDeltaTable [''/Volumes/v/doc1.pdf''] initial_state)
      = [write_request [''/Volumes/v/doc1.pdf'']]
   \<and> apiCalls (writeToDeltaTable [''/Volumes/v/doc1.pdf'']
        (writeToDeltaTable [''/Volumes/v/doc1.pdf''] initial_state))
      = [write_request [''/Volumes/v/doc1.pdf''], write_request [''/Volumes/v/doc1.pdf'']]
   \<and> timeouts (writeToDeltaTable [''/Volumes/v/doc1.pdf'']
        (writeToDeltaTable [''/Volumes/v/doc1.pdf''] initial_state))
      = [1000, 1000]"
  by (simp add: writeToDeltaTable_def initial_state_def)

section \<open>Properties of the format handlers\<close>

text \<open>
  Claim C8, as the code has it. Each \<open>can_handle\<close> joins a test of the extension and a
  test of the declared MIME type by \<open>or\<close>, and neither has precedence: the handler's
  own MIME type is accepted whatever the path is, so where the extension does not match
  and the MIME type does, the MIME type decides. For the Excel and the PowerPoint
  handler the result is exactly "a supported extension or the handler's MIME type".
  The Markdown handler accepts every path that ends in \<open>.md\<close> whatever the MIME type
  is. No handler accepts a file that has neither a supported extension nor the
  handler's MIME type.
\<close>

theorem can_handle_extension_or_mime_type:
  "can_handle h file_path (handler_mime_type h)
   \<and> (h \<noteq> MarkdownHandler \<longrightarrow>
        can_handle h file_path mime_type
        = (extension_supported h file_path \<or> mime_type = handler_mime_type h))
   \<and> (endswith (lower file_path) ''.md'' \<longrightarrow> can_handle MarkdownHandler file_path mime_type)
   \<and> (can_handle h file_path mime_type \<longrightarrow>
        extension_supported h file_path \<or> mime_type = handler_mime_type h)"
  by (cases h) (auto simp: extension_supported_def endswith_any_def)

theorem can_handle_extension_or_mime_type_witness:
  "ExcelHandler \<noteq> MarkdownHandler
   \<and> \<not> extension_supported ExcelHandler ''/Volumes/v/report.md''
   \<and> can_handle ExcelHandler ''/Volumes/v/report.md'' xlsx_mime
   \<and> extension_supported ExcelHandler ''/Volumes/v/Figures.XLSX''
   \<and> can_handle ExcelHandler ''/Volumes/v/Figures.XLSX'' ''text/markdown''
   \<and> endswith (lower ''/Volumes/v/Report.MD'') ''.md''
   \<and> can_handle MarkdownHandler ''/Volumes/v/Report.MD'' xlsx_mime"
proof -
  have n: "\<not> extension_supported ExcelHandler ''/Volumes/v/report.md''"
    by code_simp
  have x: "extension_supported ExcelHandler ''/Volumes/v/Figures.XLSX''"
    by code_simp
  have m: "endswith (lower ''/Volumes/v/Report.MD'') ''.md''"
    by code_simp
  from n x m
    can_handle_extension_or_mime_type [of ExcelHandler "''/Volumes/v/report.md''" xlsx_mime]
    can_handle_extension_or_mime_type
      [of ExcelHandler "''/Volumes/v/Figures.XLSX''" "''text/markdown''"]
    can_handle_extension_or_mime_type [of MarkdownHandler "''/Volumes/v/Report.MD''" xlsx_mime]
  show ?thesis by simp
qed

text \<open>
  The claim as the specification states it fails: for a file \<open>report.md\<close> declared as
  a spreadsheet, the extension does not match the Excel handler and matches the Markdown
  handler, and both handlers accept the file, the Excel handler by the MIME type. And a
  file \<open>notes.markdown\<close>, whose extension the Markdown handler lists as supported, is
  not accepted by it.
\<close>

theorem can_handle_mime_type_decides_on_conflict:
  "\<not> extension_supported ExcelHandler ''/Volumes/v/report.md''
   \<and> can_handle ExcelHandler ''/Volumes/v/report.md'' xlsx_mime
   \<and> extension_supported MarkdownHandler ''/Volumes/v/report.md''
   \<and> can_handle MarkdownHandler ''/Volumes/v/report.md'' xlsx_mime
   \<and> extension_supported MarkdownHandler ''/Volumes/v/notes.markdown''
   \<and> \<not> can_handle MarkdownHandler ''/Volumes/v/notes.markdown'' ''application/octet-stream''"
  by code_simp

section \<open>Properties of redact_documents\<close>

lemma detect_file_format_raises:
  "detect_file_format file_path = Inl (NameError name_os_undefined)"
  by (simp add: detect_file_format_def os_path_splitext_ext_def)

lemma process_detected_entry:
  "process_detected env t p file_format = Inr (Some entry) \<Longrightarrow>
   original_file entry = p
   \<and> (status entry = ''redacted'' \<or> status entry = ''no_entities_found'')"
  by (auto simp: process_detected_def
      split: option.splits sum.splits list.splits if_splits)

lemma for_each_file_no_raise:
  "\<not> list_ex (turn_raises turn) ps \<Longrightarrow>
   for_each_file turn ps acc = Inr (acc @ List.map_filter (appended_entry turn) ps)"
proof (induction ps arbitrary: acc)
  case Nil
  show ?case by (simp add: map_filter_simps)
next
  case (Cons p ps)
  then obtain r where r: "turn p = Inr r"
    by (cases "turn p") (auto simp: turn_raises_def)
  from Cons.prems have rest: "\<not> list_ex (turn_raises turn) ps" by simp
  show ?case
  proof (cases r)
    case None
    with r Cons.IH [OF rest] show ?thesis
      by (simp add: map_filter_simps appended_entry_def)
  next
    case (Some entry)
    with r Cons.IH [OF rest, of "acc @ [entry]"] show ?thesis
      by (simp add: map_filter_simps appended_entry_def)
  qed
qed

lemma for_each_file_raise:
  "list_ex (turn_raises turn) ps \<Longrightarrow> \<exists>e. for_each_file turn ps acc = Inl e"
proof (induction ps arbitrary: acc)
  case Nil
  then show ?case by simp
next
  case (Cons p ps)
  show ?case
  proof (cases "turn p")
    case (Inl e)
    then show ?thesis by simp
  next
    case (Inr r)
    then have "\<not> turn_raises turn p" by (simp add: turn_raises_def)
    with Cons.prems have "list_ex (turn_raises turn) ps" by simp
    from Cons.IH [OF this] Inr show ?thesis
      by (cases r) auto
  qed
qed

lemma length_map_filter_le: "length (List.map_filter f xs) \<le> length xs"
  by (induction xs) (auto simp: map_filter_simps split: option.splits)

subsection \<open>A batch of documents\<close>

text \<open>
  Claim C3, as the code has it. The \<open>for\<close> loop over the batch runs inside one
  \<open>try\<close>, and no entry has the status failed. For a non-empty batch that passes the
  checks on the configuration: if the turn of any document raises, the whole call fails
  with a single HTTP error 500 and no per-document results. This is the loop itself,
  whatever its turns do: a turn that raises ends the loop with the exception, also for
  the documents before it; when no turn raises, the entries are those the turns
  appended, in input order, at most one per input document. An entry that the loop body
  appends names its own document and has the status redacted or no_entities_found.
\<close>

theorem redact_documents_all_or_nothing:
  assumes "w_configured env" and "warehouse_id_set env" and "paths \<noteq> []"
    and "get_delta_table_path env = Inr table"
  shows "(list_ex (raises env table) paths \<longrightarrow>
            (\<exists>detail. redact_documents env paths = Inl (HTTPException 500 detail)))
       \<and> (list_ex (turn_raises turn) paths \<longrightarrow> isl (for_each_file turn paths []))
       \<and> (\<not> list_ex (turn_raises turn) paths \<longrightarrow>
            for_each_file turn paths [] = Inr (List.map_filter (appended_entry turn) paths)
            \<and> length (List.map_filter (appended_entry turn) paths) \<le> length paths)
       \<and> (\<forall>file_format entry.
            process_detected env table p file_format = Inr (Some entry) \<longrightarrow>
            original_file entry = p
            \<and> (status entry = ''redacted'' \<or> status entry = ''no_entities_found''))"
proof (intro conjI impI allI)
  assume "list_ex (raises env table) paths"
  then have "list_ex (turn_raises (process_file env table)) paths"
    by (simp add: raises_def [abs_def])
  then obtain e where "process_files env table paths = Inl e"
    unfolding process_files_def using for_each_file_raise by blast
  with assms show "\<exists>detail. redact_documents env paths = Inl (HTTPException 500 detail)"
    by (simp add: redact_documents_def failed_to_redact_def)
next
  assume "list_ex (turn_raises turn) paths"
  then show "isl (for_each_file turn paths [])"
    using for_each_file_raise [of turn paths "[]"] by auto
next
  assume "\<not> list_ex (turn_raises turn) paths"
  then show "for_each_file turn paths [] = Inr (List.map_filter (appended_entry turn) paths)"
    using for_each_file_no_raise [of turn paths "[]"] by simp
next
  show "length (List.map_filter (appended_entry turn) paths) \<le> length paths"
    by (rule length_map_filter_le)
next
  fix file_format entry
  assume "process_detected env table p file_format = Inr (Some entry)"
  then show "original_file entry = p"
    and "status entry = ''redacted'' \<or> status entry = ''no_entities_found''"
    using process_detected_entry by blast+
qed

lemma demo_env_checks:
  "w_configured demo_env" "warehouse_id_set demo_env"
  "get_delta_table_path demo_env = Inr ''fins_genai.unstructured_documents.document_processing''"
  by (simp_all add: demo_env_def warehouse_id_set_def)

theorem redact_documents_all_or_nothing_witness:
  "w_configured demo_env \<and> warehouse_id_set demo_env
   \<and> get_delta_table_path demo_env
       = Inr ''fins_genai.unstructured_documents.document_processing''
   \<and> list_ex (raises demo_env ''fins_genai.unstructured_documents.document_processing'')
        [''/Volumes/v/a.md'', ''/Volumes/v/b.md'', ''/Volumes/v/c.md'']
   \<and> (\<exists>detail. redact_documents demo_env
          [''/Volumes/v/a.md'', ''/Volumes/v/b.md'', ''/Volumes/v/c.md'']
        = Inl (HTTPException 500 detail))
   \<and> list_ex (turn_raises demo_markdown_turn)
        [''/Volumes/v/a.md'', ''/Volumes/v/b.md'', ''/Volumes/v/c.md'']
   \<and> isl (for_each_file demo_markdown_turn
        [''/Volumes/v/a.md'', ''/Volumes/v/b.md'', ''/Volumes/v/c.md''] [])
   \<and> \<not> list_ex (turn_raises demo_markdown_turn) [''/Volumes/v/a.md'', ''/Volumes/v/c.md'']
   \<and> for_each_file demo_markdown_turn [''/Volumes/v/a.md'', ''/Volumes/v/c.md''] []
      = Inr (List.map_filter (appended_entry demo_markdown_turn)
               [''/Volumes/v/a.md'', ''/Volumes/v/c.md''])
   \<and> length (List.map_filter (appended_entry demo_markdown_turn)
               [''/Volumes/v/a.md'', ''/Volumes/v/c.md'']) \<le> 2"
proof -
  let ?t = "''fins_genai.unstructured_documents.document_processing''"
  let ?bad = "[''/Volumes/v/a.md'', ''/Volumes/v/b.md'', ''/Volumes/v/c.md'']"
  let ?good = "[''/Volumes/v/a.md'', ''/Volumes/v/c.md'']"
  have written: "list_ex (raises demo_env ?t) ?bad"
    by code_simp
  have bad: "list_ex (turn_raises demo_markdown_turn) ?bad"
    by code_simp
  have good: "\<not> list_ex (turn_raises demo_markdown_turn) ?good"
    by code_simp
  have ne: "?bad \<noteq> []" "?good \<noteq> []"
    by simp_all
  note a = redact_documents_all_or_nothing
             [OF demo_env_checks(1,2) ne(1) demo_env_checks(3), of demo_markdown_turn]
  note b = redact_documents_all_or_nothing
             [OF demo_env_checks(1,2) ne(2) demo_env_checks(3), of demo_markdown_turn]
  from a written have 1: "\<exists>detail. redact_documents demo_env ?bad = Inl (HTTPException 500 detail)"
    by blast
  from a bad have 2: "isl (for_each_file demo_markdown_turn ?bad [])"
    by blast
  have two: "length ?good = 2"
    by simp
  from b good have "for_each_file demo_markdown_turn ?good []
        = Inr (List.map_filter (appended_entry demo_markdown_turn) ?good)
      \<and> length (List.map_filter (appended_entry demo_markdown_turn) ?good) \<le> length ?good"
    by blast
  then have 3: "for_each_file demo_markdown_turn ?good []
        = Inr (List.map_filter (appended_entry demo_markdown_turn) ?good)
      \<and> length (List.map_filter (appended_entry demo_markdown_turn) ?good) \<le> 2"
    by (simp only: two)
  from demo_env_checks written bad good 1 2 3 show ?thesis
    by blast
qed

text \<open>
  The claim as the specification states it fails: for a batch of three documents the
  caller receives one error for the batch and not three results. As the module is
  written the error is the NameError of the format detection in the first turn; and
  with the formats detected, the loop body that cannot redact the second document ends
  the loop in the same way.
\<close>

theorem redact_documents_one_failure_fails_the_batch:
  "redact_documents demo_env [''/Volumes/v/a.md'', ''/Volumes/v/b.md'', ''/Volumes/v/c.md'']
   = Inl (HTTPException 500 (''Failed to redact documents: '' @ name_os_undefined))
   \<and> for_each_file demo_markdown_turn
        [''/Volumes/v/a.md'', ''/Volumes/v/b.md'', ''/Volumes/v/c.md''] []
      = Inl (Exception ''File is not a valid document'')"
  by code_simp

subsection \<open>A document without a handler\<close>

text \<open>
  Claim C4, as the code has it. For a document whose detected format has no entry in
  \<open>FORMAT_HANDLERS\<close> (the format unknown, which an extension such as \<open>.zip\<close> maps
  to, and also the format pdf), the handler guard ends the turn of the loop in
  \<open>continue\<close>: the guard raises nothing, no entry is appended for the document, and
  the loop goes on with the rest of the batch as if the document were not there. No
  entry that the loop body appends has the status unsupported_format.
\<close>

theorem no_handler_is_skipped:
  assumes "get_format_handler file_format = None"
  shows "process_detected env table p file_format = Inr None
    \<and> (turn p = Inr None \<longrightarrow>
         for_each_file turn (p # rest) entries = for_each_file turn rest entries)
    \<and> format_of_extension ''.zip'' = ''unknown''
    \<and> get_format_handler ''unknown'' = None
    \<and> get_format_handler ''pdf'' = None
    \<and> (\<forall>any_format entry.
          process_detected env table p any_format = Inr (Some entry) \<longrightarrow>
          status entry \<noteq> ''unsupported_format'')"
proof -
  have skip: "process_detected env table p file_format = Inr None"
    using assms by (simp add: process_detected_def)
  have zip: "format_of_extension ''.zip'' = ''unknown''"
    and unknown: "get_format_handler ''unknown'' = None"
    and pdf: "get_format_handler ''pdf'' = None"
    by code_simp+
  have status: "\<forall>any_format entry.
          process_detected env table p any_format = Inr (Some entry) \<longrightarrow>
          status entry \<noteq> ''unsupported_format''"
    using process_detected_entry by fastforce
  from skip zip unknown pdf status show ?thesis
    by simp
qed

theorem no_handler_is_skipped_witness:
  "get_format_handler ''unknown'' = None
   \<and> process_detected demo_env ''fins_genai.unstructured_documents.document_processing''
        ''/Volumes/v/archive.zip'' ''unknown'' = Inr None
   \<and> demo_unknown_turn ''/Volumes/v/archive.zip'' = Inr None
   \<and> for_each_file demo_unknown_turn [''/Volumes/v/archive.zip''] []
      = for_each_file demo_unknown_turn [] []
   \<and> get_format_handler ''pdf'' = None
   \<and> process_detected demo_env ''fins_genai.unstructured_documents.document_processing''
        ''/Volumes/v/contract.pdf'' ''pdf'' = Inr None"
proof -
  let ?t = "''fins_genai.unstructured_documents.document_processing''"
  have u: "get_format_handler ''unknown'' = None"
    by code_simp
  have p: "get_format_handler ''pdf'' = None"
    by code_simp
  note z = no_handler_is_skipped
             [OF u, of demo_env ?t "''/Volumes/v/archive.zip''" demo_unknown_turn "[]" "[]"]
  from z have turn: "demo_unknown_turn ''/Volumes/v/archive.zip'' = Inr None"
    by (simp add: demo_unknown_turn_def)
  from z turn no_handler_is_skipped [OF p, of demo_env ?t "''/Volumes/v/contract.pdf''"] u p
  show ?thesis by blast
qed

text \<open>
  The claim as the specification states it fails: for a \<open>.zip\<close> file there is no entry
  with the status \<open>unsupported_format\<close>. As the module is written the call fails with
  the NameError of the format detection; and for the format unknown the loop body
  appends no entry at all.
\<close>

theorem zip_file_gets_no_result_entry:
  "redact_documents demo_env [''/Volumes/v/archive.zip'']
   = Inl (HTTPException 500 (''Failed to redact documents: '' @ name_os_undefined))
   \<and> format_of_extension ''.zip'' = ''unknown''
   \<and> process_detected demo_env ''fins_genai.unstructured_documents.document_processing''
        ''/Volumes/v/archive.zip'' ''unknown'' = Inr None"
  by code_simp

subsection \<open>The status no_entities_found\<close>

lemma strip_Nil: "strip [] = []"
  by (simp add: strip_def)

text \<open>
  Claim C5, as the code has it. For a document whose detected format has a handler and
  whose stored content is not blank, the status that the loop body gives depends on the
  EntityMap being empty, not on its keys occurring in the content. With an empty
  EntityMap the entry has the status \<open>no_entities_found\<close>, the count 0, and names the
  original file as the redacted file: the input is left as it is. With a non-empty
  EntityMap the handler's \<open>redact_content\<close> is called and, when it returns, the entry
  has the status \<open>redacted\<close> and counts all entities of the map, whether or not any
  key occurs in the content.
\<close>

theorem no_entities_found_when_entity_map_empty:
  assumes "get_format_handler file_format = Some h"
    and "execute_statement env table (dbfs_path_of p) = Inr (Some content # rows)"
    and "strip content \<noteq> []"
    and "extract_entities_for_redaction env content = Inr M"
  shows "(M = [] \<longrightarrow>
           process_detected env table p file_format
           = Inr (Some \<lparr>original_file = p, redacted_file = p, entities_count = 0,
                        entities = None, status = ''no_entities_found'',
                        format = file_format\<rparr>))
       \<and> (M \<noteq> [] \<longrightarrow>
           (\<forall>redacted_path. redact_content env h p M = Inr redacted_path \<longrightarrow>
              process_detected env table p file_format
              = Inr (Some \<lparr>original_file = p, redacted_file = redacted_path,
                           entities_count = length M, entities = Some M,
                           status = ''redacted'', format = file_format\<rparr>)))"
proof -
  from assms(3) have "content \<noteq> []"
    using strip_Nil by auto
  with assms show ?thesis
    by (simp add: process_detected_def)
qed

theorem no_entities_found_when_entity_map_empty_witness:
  "get_format_handler ''markdown'' = Some MarkdownHandler
   \<and> strip ''Coca Cola Inc. signed the contract.'' \<noteq> []
   \<and> process_detected noentity_env ''fins_genai.unstructured_documents.document_processing''
        ''/Volumes/v/a.md'' ''markdown''
      = Inr (Some \<lparr>original_file = ''/Volumes/v/a.md'', redacted_file = ''/Volumes/v/a.md'',
                   entities_count = 0, entities = None, status = ''no_entities_found'',
                   format = ''markdown''\<rparr>)
   \<and> process_detected demo_env ''fins_genai.unstructured_documents.document_processing''
        ''/Volumes/v/a.md'' ''markdown''
      = Inr (Some \<lparr>original_file = ''/Volumes/v/a.md'',
                   redacted_file = ''/Volumes/v/a.md.redacted'',
                   entities_count = 1, entities = Some [(''Coca Cola'', ''[CLIENT]'')],
                   status = ''redacted'', format = ''markdown''\<rparr>)"
proof -
  let ?t = "''fins_genai.unstructured_documents.document_processing''"
  let ?c = "''Coca Cola Inc. signed the contract.''"
  have h: "get_format_handler ''markdown'' = Some MarkdownHandler"
    by code_simp
  have s: "strip ?c \<noteq> []"
    by code_simp
  have q0: "execute_statement noentity_env ?t (dbfs_path_of ''/Volumes/v/a.md'') = Inr (Some ?c # [])"
    and q1: "execute_statement demo_env ?t (dbfs_path_of ''/Volumes/v/a.md'') = Inr (Some ?c # [])"
    by (simp_all add: noentity_env_def demo_env_def)
  have n0: "extract_entities_for_redaction noentity_env ?c = Inr []"
    and n1: "extract_entities_for_redaction demo_env ?c = Inr [(''Coca Cola'', ''[CLIENT]'')]"
    by (simp_all add: noentity_env_def demo_env_def)
  have r1: "redact_content demo_env MarkdownHandler ''/Volumes/v/a.md''
              [(''Coca Cola'', ''[CLIENT]'')] = Inr ''/Volumes/v/a.md.redacted''"
    by (simp add: demo_env_def)
  from no_entities_found_when_entity_map_empty [OF h q0 s n0]
       no_entities_found_when_entity_map_empty [OF h q1 s n1] r1 h s
  show ?thesis by simp
qed

text \<open>
  The claim as the specification states it fails: the only key of the EntityMap does
  not occur in the content, and the status is not \<open>no_entities_found\<close>. As the module
  is written the call fails with the NameError of the format detection; and for the
  format markdown the loop body gives the status \<open>redacted\<close> with one entity counted.
\<close>

theorem absent_key_is_reported_redacted:
  "\<not> sublist ''Nonexistent'' ''Coca Cola Inc. signed the contract.''
   \<and> execute_statement nomatch_env ''fins_genai.unstructured_documents.document_processing''
        (dbfs_path_of ''/Volumes/v/a.md'')
      = Inr [Some ''Coca Cola Inc. signed the contract.'']
   \<and> extract_entities_for_redaction nomatch_env ''Coca Cola Inc. signed the contract.''
      = Inr [(''Nonexistent'', ''[X]'')]
   \<and> redact_documents nomatch_env [''/Volumes/v/a.md'']
      = Inl (HTTPException 500 (''Failed to redact documents: '' @ name_os_undefined))
   \<and> process_detected nomatch_env ''fins_genai.unstructured_documents.document_processing''
        ''/Volumes/v/a.md'' ''markdown''
      = Inr (Some \<lparr>original_file = ''/Volumes/v/a.md'',
                   redacted_file = ''/Volumes/v/a.md.redacted'',
                   entities_count = 1,
                   entities = Some [(''Nonexistent'', ''[X]'')],
                   status = ''redacted'',
                   format = ''markdown''\<rparr>)"
  by code_simp

section \<open>Properties of the substitution\<close>

lemma entity_order_key_inj:
  assumes "distinct (map fst M)"
  shows "inj_on entity_order_key (set M)"
proof (rule inj_onI)
  fix a b
  assume a: "a \<in> set M" and b: "b \<in> set M"
    and eq: "entity_order_key a = entity_order_key b"
  from eq have "fst a = fst b"
    by (simp add: entity_order_key_def)
  moreover from assms have "inj_on fst (set M)"
    by (simp add: distinct_map)
  ultimately show "a = b"
    using a b by (auto dest: inj_onD)
qed

lemma sort_entities_permutation:
  assumes "distinct (map fst M)" and "distinct (map fst M')" and "set M = set M'"
  shows "sort_entities M = sort_entities M'"
proof -
  from assms(1,2) have "distinct M" "distinct M'"
    by (auto simp: distinct_map)
  with assms(3) have "mset M = mset M'"
    by (simp add: set_eq_iff_mset_eq_distinct)
  from sort_key_eq_sort_key [OF this entity_order_key_inj [OF assms(1)]] show ?thesis
    by (simp add: sort_entities_def)
qed

lemma sort_entities_ordered:
  "sorted_wrt (\<lambda>a b. length (fst b) < length (fst a)
                    \<or> (length (fst a) = length (fst b) \<and> fst a \<le> fst b))
     (sort_entities M)"
proof -
  have "sorted (map entity_order_key (sort_entities M))"
    by (simp add: sort_entities_def)
  then have "sorted_wrt (\<lambda>a b. entity_order_key a \<le> entity_order_key b) (sort_entities M)"
    by (simp add: sorted_map)
  then show ?thesis
    by (rule sorted_wrt_mono_rel [rotated])
       (auto simp: entity_order_key_def less_eq_prod_def)
qed

subsection \<open>Longest key first\<close>

text \<open>
  Claim C2, for the engine as the specification describes it. The entries are sorted
  by descending key length with ties in lexicographic order before any substitution.
  Two EntityMaps with unique keys and the same entries, iterated in whatever order,
  give the same sorted entries, hence the same text for every unit and the same result
  of \<open>redact\<close>. For "Coca Cola" and "Cola" and the text "Coca Cola Inc." the
  result is "[CLIENT] Inc." in both orders of the map.
\<close>

theorem substitution_independent_of_entity_map_order:
  assumes "distinct (map fst M)" and "distinct (map fst M')" and "set M = set M'"
  shows "sort_entities M = sort_entities M'
    \<and> sorted_wrt (\<lambda>a b. length (fst b) < length (fst a)
                       \<or> (length (fst a) = length (fst b) \<and> fst a \<le> fst b))
        (sort_entities M)
    \<and> redact_text M t = redact_text M' t
    \<and> redact reg rawBytes filename declaredType M
        = redact reg rawBytes filename declaredType M'
    \<and> redact_text [(''Coca Cola'', ''[CLIENT]''), (''Cola'', ''[PRODUCT]'')] ''Coca Cola Inc.''
        = ''[CLIENT] Inc.''
    \<and> redact_text [(''Cola'', ''[PRODUCT]''), (''Coca Cola'', ''[CLIENT]'')] ''Coca Cola Inc.''
        = ''[CLIENT] Inc.''"
proof -
  note same = sort_entities_permutation [OF assms]
  from assms(3) have empty: "M = [] \<longleftrightarrow> M' = []"
    by (metis set_empty)
  have texts: "redact_text M s = redact_text M' s" for s
    by (simp add: redact_text_def same)
  have matched: "matched_keys M s = matched_keys M' s" for s
    by (simp add: matched_keys_def same)
  have unit: "redact_unit M = redact_unit M'"
    by (rule ext) (simp add: redact_unit_def texts)
  have applied: "applied_keys M us = applied_keys M' us" for us
    by (simp add: applied_keys_def same matched)
  have whole: "redact reg rawBytes filename declaredType M
               = redact reg rawBytes filename declaredType M'"
    unfolding redact_def empty unit applied ..
  have ex1: "redact_text [(''Coca Cola'', ''[CLIENT]''), (''Cola'', ''[PRODUCT]'')]
               ''Coca Cola Inc.'' = ''[CLIENT] Inc.''"
    by code_simp
  have ex2: "redact_text [(''Cola'', ''[PRODUCT]''), (''Coca Cola'', ''[CLIENT]'')]
               ''Coca Cola Inc.'' = ''[CLIENT] Inc.''"
    by code_simp
  from same sort_entities_ordered [of M] texts [of t] whole ex1 ex2 show ?thesis
    by simp
qed

theorem substitution_independent_of_entity_map_order_witness:
  "distinct (map fst [(''Coca Cola'', ''[CLIENT]''), (''Cola'', ''[PRODUCT]'')])
   \<and> distinct (map fst [(''Cola'', ''[PRODUCT]''), (''Coca Cola'', ''[CLIENT]'')])
   \<and> set [(''Coca Cola'', ''[CLIENT]''), (''Cola'', ''[PRODUCT]'')]
      = set [(''Cola'', ''[PRODUCT]''), (''Coca Cola'', ''[CLIENT]'')]
   \<and> sort_entities [(''Coca Cola'', ''[CLIENT]''), (''Cola'', ''[PRODUCT]'')]
      = sort_entities [(''Cola'', ''[PRODUCT]''), (''Coca Cola'', ''[CLIENT]'')]
   \<and> redact_text [(''Coca Cola'', ''[CLIENT]''), (''Cola'', ''[PRODUCT]'')]
        ''Cola by Coca Cola''
      = redact_text [(''Cola'', ''[PRODUCT]''), (''Coca Cola'', ''[CLIENT]'')]
        ''Cola by Coca Cola''"
proof -
  have d1: "distinct (map fst [(''Coca Cola'', ''[CLIENT]''), (''Cola'', ''[PRODUCT]'')])"
    and d2: "distinct (map fst [(''Cola'', ''[PRODUCT]''), (''Coca Cola'', ''[CLIENT]'')])"
    by simp_all
  have s: "set [(''Coca Cola'', ''[CLIENT]''), (''Cola'', ''[PRODUCT]'')]
           = set [(''Cola'', ''[PRODUCT]''), (''Coca Cola'', ''[CLIENT]'')]"
    by auto
  from substitution_independent_of_entity_map_order [OF d1 d2 s, of "''Cola by Coca Cola''"]
    d1 d2 s
  show ?thesis by blast
qed

subsection \<open>Redacting a redacted document again\<close>











end
